theory Spec2Isabelle
  imports Main "HOL-Library.Sublist"
begin

section \<open>Python strings\<close>

text \<open>
  A Python \<open>str\<close> is a sequence of Unicode code points and \<open>len\<close> counts code points,
  so a string is a list of code point numbers. \<open>ascii\<close> reads an ASCII literal.
\<close>

type_synonym pystr = "nat list"

definition ascii :: "string \<Rightarrow> pystr" where
  "ascii cs = map of_char cs"

text \<open>\<open>str.isspace\<close> for one character: the code points \<open>str.strip()\<close> removes.\<close>

definition isspace :: "nat \<Rightarrow> bool" where
  "isspace c \<longleftrightarrow>
     (9 \<le> c \<and> c \<le> 13) \<or> (28 \<le> c \<and> c \<le> 32) \<or> c = 133 \<or> c = 160 \<or> c = 5760 \<or>
     (8192 \<le> c \<and> c \<le> 8202) \<or> c = 8232 \<or> c = 8233 \<or> c = 8239 \<or> c = 8287 \<or> c = 12288"

definition strip :: "pystr \<Rightarrow> pystr" where
  "strip s = rev (dropWhile isspace (rev (dropWhile isspace s)))"

text \<open>
  \<open>html.escape(s)\<close> with its default \<open>quote=True\<close>: five \<open>str.replace\<close> calls, the
  ampersand first.
\<close>

definition replace_char :: "nat \<Rightarrow> pystr \<Rightarrow> pystr \<Rightarrow> pystr" where
  "replace_char c r s = concat (map (\<lambda>x. if x = c then r else [x]) s)"

definition html_escape :: "pystr \<Rightarrow> pystr" where
  "html_escape s =
     replace_char 39 (ascii ''&#x27;'')
      (replace_char 34 (ascii ''&quot;'')
        (replace_char 62 (ascii ''&gt;'')
          (replace_char 60 (ascii ''&lt;'')
            (replace_char 38 (ascii ''&amp;'') s))))"

section \<open>Text files\<close>

text \<open>
  \<open>Path.write_text(s, encoding='utf-8')\<close> opens the file for writing, which empties it,
  and then encodes \<open>s\<close>; the strict UTF-8 codec raises \<open>UnicodeEncodeError\<close> on a
  surrogate code point (U+D800 to U+DFFF). \<open>Path.read_text\<close> decodes in text mode with
  universal newlines: \<open>\r\n\<close> and a lone \<open>\r\<close> are read as \<open>\n\<close>. The stored text is
  the one of a platform whose line separator is \<open>\n\<close>.
\<close>

definition utf8_encodable :: "pystr \<Rightarrow> bool" where
  "utf8_encodable s = list_all (\<lambda>c. \<not> (55296 \<le> c \<and> c \<le> 57343)) s"

fun newlines :: "bool \<Rightarrow> pystr \<Rightarrow> pystr" where
  "newlines after_cr [] = []"
| "newlines after_cr (c # cs) =
     (if c = 13 then 10 # newlines True cs
      else if c = 10 \<and> after_cr then newlines False cs
      else c # newlines False cs)"

definition universal_newlines :: "pystr \<Rightarrow> pystr" where
  "universal_newlines s = newlines False s"

section \<open>Truncation\<close>

text \<open>\<open>s.rsplit(' ', 1)[0]\<close>: the part before the last space, all of \<open>s\<close> if it has none.\<close>

definition rsplit_space_head :: "pystr \<Rightarrow> pystr" where
  "rsplit_space_head s =
     (if 32 \<in> set s then rev (tl (dropWhile (\<lambda>c. c \<noteq> 32) (rev s))) else s)"

definition truncate_text :: "pystr \<Rightarrow> nat \<Rightarrow> pystr" where
  "truncate_text text max_len =
     (if length text \<le> max_len then text
      else let truncated = rsplit_space_head (take max_len text)
           in if truncated \<noteq> [] then truncated @ ascii ''...''
              else take max_len text @ ascii ''...'')"

section \<open>Environment\<close>

text \<open>
  What the program takes from outside: \<open>urllib.parse.urlparse\<close> (\<open>None\<close> when it
  raises) and \<open>str.lower\<close> of the standard library, the answers of the Telegram client
  to the successive send calls, whether the cursor file can be opened, and the two
  configured pauses.
\<close>

record url_parts =
  scheme :: pystr
  netloc :: pystr

datatype failure = TelegramError | OtherException

datatype outcome = Delivered | Failed failure

datatype request =
    SendPhoto pystr pystr
  | SendMessage pystr

record env =
  urlparse :: "pystr \<Rightarrow> url_parts option"
  str_lower :: "pystr \<Rightarrow> pystr"
  bot_send :: "nat \<Rightarrow> request \<Rightarrow> outcome"
  read_fails :: bool
  write_fails :: bool
  POST_COOLDOWN :: nat
  CHECK_INTERVAL :: nat

definition MAX_RETRIES :: nat where
  "MAX_RETRIES = 3"

section \<open>State and observable events\<close>

datatype exn = AttributeError string | FeedError

datatype level = INFO | WARNING | ERROR

datatype log_msg =
    PhotoPublished pystr
  | TextPublished pystr
  | EntryProcessed pystr pystr
  | TelegramSendError nat
  | GeneralSendError nat
  | AllAttemptsFailed
  | ReadError
  | WriteEncodingError
  | WriteError
  | ParseError
  | Published nat
  | NothingNew
  | Waiting nat
  | CriticalError exn
  | Restarting

datatype event =
    Bot request
  | Logging level log_msg
  | Sleep nat

text \<open>
  \<open>cursor_file\<close> is the text of \<open>last_entry_id.txt\<close> (\<open>None\<close>: no such file), \<open>calls\<close>
  counts the send calls made so far, \<open>trace\<close> lists what happened, oldest first.
\<close>

record world =
  cursor_file :: "pystr option"
  calls :: nat
  trace :: "event list"

definition emit :: "event \<Rightarrow> world \<Rightarrow> world" where
  "emit ev s = s\<lparr>trace := trace s @ [ev]\<rparr>"

text \<open>The send calls of a trace, in the order they were made.\<close>

fun requests_of :: "event list \<Rightarrow> request list" where
  "requests_of [] = []"
| "requests_of (Bot r # evs) = r # requests_of evs"
| "requests_of (ev # evs) = requests_of evs"

section \<open>URL check\<close>

definition is_valid_url :: "env \<Rightarrow> pystr \<Rightarrow> bool" where
  "is_valid_url env url =
     (if url = [] then False
      else case urlparse env url of
             None \<Rightarrow> False
           | Some result \<Rightarrow> scheme result \<noteq> [] \<and> netloc result \<noteq> [])"

section \<open>Cursor store\<close>

definition get_last_entry_id :: "env \<Rightarrow> world \<Rightarrow> pystr option \<times> world" where
  "get_last_entry_id env s =
     (case cursor_file s of
        None \<Rightarrow> (None, s)
      | Some text \<Rightarrow>
          if read_fails env then (None, emit (Logging ERROR ReadError) s)
          else let content = strip (universal_newlines text)
               in (if content \<noteq> [] then Some content else None, s))"

definition save_last_entry_id :: "env \<Rightarrow> pystr \<Rightarrow> world \<Rightarrow> world" where
  "save_last_entry_id env entry_id s =
     (if write_fails env then emit (Logging ERROR WriteError) s
      else if \<not> utf8_encodable entry_id
        then emit (Logging ERROR WriteEncodingError) (s\<lparr>cursor_file := Some []\<rparr>)
      else s\<lparr>cursor_file := Some entry_id\<rparr>)"

section \<open>Feed entries and image extraction\<close>

text \<open>A field is \<open>None\<close> when the entry (or media, or link) does not have the key.\<close>

record media =
  media_url :: "pystr option"

record link_data =
  link_type :: "pystr option"
  href :: "pystr option"

record entry =
  e_id :: "pystr option"
  e_link :: "pystr option"
  e_title :: "pystr option"
  e_summary :: "pystr option"
  e_media_content :: "media list option"
  e_links :: "link_data list option"

definition image_keywords :: "pystr list" where
  "image_keywords = [ascii ''image'', ascii ''img'', ascii ''photo'', ascii ''picture'']"

fun scan_media :: "env \<Rightarrow> media list \<Rightarrow> pystr option" where
  "scan_media env [] = None"
| "scan_media env (m # ms) =
     (case media_url m of
        None \<Rightarrow> scan_media env ms
      | Some url \<Rightarrow> if is_valid_url env url then Some url else scan_media env ms)"

fun scan_links :: "env \<Rightarrow> link_data list \<Rightarrow> pystr option" where
  "scan_links env [] = None"
| "scan_links env (l # ls) =
     (let ltype = (case link_type l of None \<Rightarrow> [] | Some t \<Rightarrow> t)
      in case href l of
           None \<Rightarrow> scan_links env ls
         | Some h \<Rightarrow>
             if h \<noteq> [] \<and> is_valid_url env h then
               if prefix (ascii ''image'') ltype then Some h
               else if list_ex (\<lambda>keyword. sublist keyword (str_lower env h)) image_keywords
                 then Some h
               else scan_links env ls
             else scan_links env ls)"

definition extract_image_url :: "env \<Rightarrow> entry \<Rightarrow> pystr option" where
  "extract_image_url env e =
     (case (case e_media_content e of
              None \<Rightarrow> None
            | Some ms \<Rightarrow> if ms \<noteq> [] then scan_media env ms else None) of
        Some url \<Rightarrow> Some url
      | None \<Rightarrow>
          (case e_links e of
             None \<Rightarrow> None
           | Some ls \<Rightarrow> scan_links env ls))"

section \<open>One polling cycle\<close>

text \<open>The text between the summary and the link: two newlines and the Russian label
  for "read more" with its colon and space, as code points.\<close>

definition read_more :: pystr where
  "read_more = [10, 10, 1063, 1080, 1090, 1072, 1090, 1100, 32,
                1076, 1072, 1083, 1077, 1077, 58, 32]"

text \<open>The f-string of \<open>process_and_send_entries\<close>, from the escaped title and summary.\<close>

definition format_message :: "pystr \<Rightarrow> pystr \<Rightarrow> pystr \<Rightarrow> pystr" where
  "format_message title summary link =
     ascii ''<b>'' @ title @ ascii ''</b>'' @ [10, 10] @ truncate_text summary 3500
       @ read_more @ link"

text \<open>Truth value of \<open>image_url\<close>: neither \<open>None\<close> nor the empty string.\<close>

definition has_image :: "pystr option \<Rightarrow> bool" where
  "has_image image_url = (case image_url of None \<Rightarrow> False | Some u \<Rightarrow> u \<noteq> [])"

definition send_request :: "pystr option \<Rightarrow> pystr \<Rightarrow> request" where
  "send_request image_url message =
     (case image_url of
        None \<Rightarrow> SendMessage message
      | Some u \<Rightarrow>
          if u \<noteq> [] then SendPhoto u (truncate_text message 1024)
          else SendMessage message)"

text \<open>
  The retry loop \<open>for send_attempt in range(MAX_RETRIES)\<close> over the attempt numbers
  still to run. It returns the flag \<open>sent\<close>.
\<close>

fun send_attempts ::
  "env \<Rightarrow> pystr option \<Rightarrow> pystr \<Rightarrow> pystr \<Rightarrow> pystr \<Rightarrow> nat list \<Rightarrow> world \<Rightarrow> bool \<times> world"
where
  "send_attempts env image_url message title entry_id [] s = (False, s)"
| "send_attempts env image_url message title entry_id (send_attempt # rest) s =
     (let req = send_request image_url message;
          s1 = emit (Bot req) (s\<lparr>calls := Suc (calls s)\<rparr>)
      in case bot_send env (calls s) req of
           Delivered \<Rightarrow>
             (let s2 = emit (Logging INFO (if has_image image_url then PhotoPublished title
                                           else TextPublished title)) s1;
                  s3 = save_last_entry_id env entry_id s2;
                  s4 = emit (Logging INFO (EntryProcessed title entry_id)) s3
              in (True, s4))
         | Failed TelegramError \<Rightarrow>
             (let s2 = emit (Logging WARNING (TelegramSendError (send_attempt + 1))) s1;
                  s3 = (if send_attempt = MAX_RETRIES - 1
                        then emit (Logging ERROR AllAttemptsFailed) s2 else s2);
                  s4 = emit (Sleep 2) s3
              in send_attempts env image_url message title entry_id rest s4)
         | Failed OtherException \<Rightarrow>
             (let s2 = emit (Logging WARNING (GeneralSendError (send_attempt + 1))) s1;
                  s3 = (if send_attempt = MAX_RETRIES - 1
                        then emit (Logging ERROR AllAttemptsFailed) s2 else s2);
                  s4 = emit (Sleep 2) s3
              in send_attempts env image_url message title entry_id rest s4))"

text \<open>
  \<open>entry.get('id', entry.link)\<close>: the default argument is evaluated before the lookup,
  so an entry without \<open>link\<close> raises whatever its \<open>id\<close>.
\<close>

definition get_entry_id :: "entry \<Rightarrow> exn + pystr" where
  "get_entry_id e =
     (case e_link e of
        None \<Rightarrow> Inl (AttributeError ''link'')
      | Some link \<Rightarrow> Inr (case e_id e of Some i \<Rightarrow> i | None \<Rightarrow> link))"

text \<open>The test \<open>last_id and entry_id == last_id\<close>.\<close>

definition already_processed :: "pystr option \<Rightarrow> pystr \<Rightarrow> bool" where
  "already_processed last_id entry_id =
     (case last_id of None \<Rightarrow> False | Some l \<Rightarrow> l \<noteq> [] \<and> entry_id = l)"

text \<open>The loop \<open>for entry in entries\<close>, with the counter \<open>new_entries_sent\<close>.\<close>

fun walk :: "env \<Rightarrow> pystr option \<Rightarrow> entry list \<Rightarrow> nat \<Rightarrow> world \<Rightarrow> (exn + nat) \<times> world" where
  "walk env last_id [] new_entries_sent s = (Inr new_entries_sent, s)"
| "walk env last_id (e # es) new_entries_sent s =
     (case get_entry_id e of
        Inl err \<Rightarrow> (Inl err, s)
      | Inr entry_id \<Rightarrow>
          if already_processed last_id entry_id then (Inr new_entries_sent, s)
          else
            (case e_title e of
               None \<Rightarrow> (Inl (AttributeError ''title''), s)
             | Some t \<Rightarrow>
                 (case e_link e of
                    None \<Rightarrow> (Inl (AttributeError ''link''), s)
                  | Some link \<Rightarrow>
                      (let title = html_escape t;
                           summary = html_escape
                             (case e_summary e of None \<Rightarrow> [] | Some x \<Rightarrow> x);
                           message = format_message title summary link;
                           image_url = extract_image_url env e;
                           r = send_attempts env image_url message title entry_id
                                 [0..<MAX_RETRIES] s
                       in if fst r
                          then walk env last_id es (new_entries_sent + 1)
                                 (emit (Sleep (POST_COOLDOWN env)) (snd r))
                          else walk env last_id es new_entries_sent (snd r)))))"

definition process_and_send_entries :: "env \<Rightarrow> entry list \<Rightarrow> world \<Rightarrow> (exn + nat) \<times> world" where
  "process_and_send_entries env entries s =
     (let r = get_last_entry_id env s
      in walk env (fst r) entries 0 (snd r))"

section \<open>Scheduler loop\<close>

text \<open>
  What \<open>feedparser.parse\<close> gave in one cycle: it raised, or it returned a feed with its
  \<open>bozo\<close> flag and its entries.
\<close>

record feed =
  bozo :: bool
  entries :: "entry list"

datatype fetch = ParseRaises | Parsed feed

text \<open>The body of \<open>while True\<close> in \<open>main\<close>: the \<open>try\<close> block, then one of its two exits.\<close>

definition main_try :: "env \<Rightarrow> fetch \<Rightarrow> world \<Rightarrow> (exn + unit) \<times> world" where
  "main_try env fetched s =
     (case fetched of
        ParseRaises \<Rightarrow> (Inl FeedError, s)
      | Parsed f \<Rightarrow>
          if bozo f then (Inr (), emit (Logging ERROR ParseError) s)
          else
            (case process_and_send_entries env (entries f) s of
               (Inl err, s1) \<Rightarrow> (Inl err, s1)
             | (Inr new_count, s1) \<Rightarrow>
                 (Inr (), emit (Logging INFO (if new_count > 0 then Published new_count
                                              else NothingNew)) s1)))"

definition main_iteration :: "env \<Rightarrow> fetch \<Rightarrow> world \<Rightarrow> world" where
  "main_iteration env fetched s =
     (case main_try env fetched s of
        (Inr u, s1) \<Rightarrow>
          emit (Sleep (CHECK_INTERVAL env))
            (emit (Logging INFO (Waiting (CHECK_INTERVAL env))) s1)
      | (Inl err, s1) \<Rightarrow>
          emit (Sleep 60)
            (emit (Logging INFO Restarting) (emit (Logging ERROR (CriticalError err)) s1)))"

text \<open>The first cycles of the endless loop, one for each result of fetching the feed.\<close>

fun main_loop :: "env \<Rightarrow> fetch list \<Rightarrow> world \<Rightarrow> world" where
  "main_loop env [] s = s"
| "main_loop env (fetched # rest) s = main_loop env rest (main_iteration env fetched s)"

section \<open>A concrete environment\<close>

text \<open>
  For the examples: \<open>str.lower\<close> on ASCII text, and the scheme and netloc that
  \<open>urlparse\<close> gives for a URL of printable ASCII characters without brackets (the
  scheme is the text before the first colon when it starts with a letter and holds
  scheme characters only; the netloc follows \<open>//\<close> and ends before \<open>/\<close>, \<open>?\<close> or
  \<open>#\<close>). The client answers every call with success and the file can be opened.
\<close>

definition ascii_lower :: "pystr \<Rightarrow> pystr" where
  "ascii_lower s = map (\<lambda>c. if 65 \<le> c \<and> c \<le> 90 then c + 32 else c) s"

definition scheme_chars :: pystr where
  "scheme_chars =
     ascii ''abcdefghijklmnopqrstuvwxyzABCDEFGHIJKLMNOPQRSTUVWXYZ0123456789+-.''"

definition urlparse_plain :: "pystr \<Rightarrow> url_parts option" where
  "urlparse_plain url =
     (let head = takeWhile (\<lambda>c. c \<noteq> 58) url;
          has_scheme = (58 \<in> set url \<and> head \<noteq> [] \<and>
                        ((65 \<le> hd head \<and> hd head \<le> 90) \<or> (97 \<le> hd head \<and> hd head \<le> 122)) \<and>
                        list_all (\<lambda>c. c \<in> set scheme_chars) head);
          rest = (if has_scheme then drop (length head + 1) url else url)
      in Some \<lparr>scheme = (if has_scheme then ascii_lower head else []),
               netloc = (if take 2 rest = ascii ''//''
                         then takeWhile (\<lambda>c. c \<notin> set (ascii ''/?#'')) (drop 2 rest)
                         else [])\<rparr>)"

definition always_delivered :: "nat \<Rightarrow> request \<Rightarrow> outcome" where
  "always_delivered n req = Delivered"


definition env0 :: env where
  "env0 = \<lparr>urlparse = urlparse_plain, str_lower = ascii_lower, bot_send = always_delivered,
           read_fails = False, write_fails = False, POST_COOLDOWN = 60, CHECK_INTERVAL = 300\<rparr>"

definition fails_first :: "nat \<Rightarrow> nat \<Rightarrow> request \<Rightarrow> outcome" where
  "fails_first m n req = (if n < m then Failed OtherException else Delivered)"

definition env_failing :: "nat \<Rightarrow> env" where
  "env_failing m = env0\<lparr>bot_send := fails_first m\<rparr>"

definition world0 :: world where
  "world0 = \<lparr>cursor_file = None, calls = 0, trace = []\<rparr>"

definition plain_entry :: "string \<Rightarrow> string \<Rightarrow> string \<Rightarrow> entry" where
  "plain_entry i t l =
     \<lparr>e_id = Some (ascii i), e_link = Some (ascii l), e_title = Some (ascii t),
      e_summary = None, e_media_content = None, e_links = None\<rparr>"

text \<open>The feed of the end-to-end scenario, newest entry first, each entry with a link.\<close>

definition feed321 :: "entry list" where
  "feed321 = [plain_entry ''3'' ''C'' ''http://f.example/3'',
              plain_entry ''2'' ''B'' ''http://f.example/2'',
              plain_entry ''1'' ''A'' ''http://f.example/1'']"

definition two_links_entry :: entry where
  "two_links_entry =
     \<lparr>e_id = Some (ascii ''7''), e_link = Some (ascii ''http://f.example/7''),
      e_title = Some (ascii ''T''), e_summary = None, e_media_content = None,
      e_links = Some [\<lparr>link_type = Some (ascii ''text/html''),
                        href = Some (ascii ''http://f.example/img/page.html'')\<rparr>,
                      \<lparr>link_type = Some (ascii ''image/png''),
                        href = Some (ascii ''http://f.example/a.png'')\<rparr>]\<rparr>"

definition media_and_link_entry :: entry where
  "media_and_link_entry =
     \<lparr>e_id = Some (ascii ''8''), e_link = Some (ascii ''http://f.example/8''),
      e_title = Some (ascii ''T''), e_summary = None,
      e_media_content = Some [\<lparr>media_url = None\<rparr>,
                               \<lparr>media_url = Some (ascii ''/thumb.png'')\<rparr>,
                               \<lparr>media_url = Some (ascii ''http://f.example/m.jpg'')\<rparr>],
      e_links = Some [\<lparr>link_type = Some (ascii ''image/png''),
                        href = Some (ascii ''http://f.example/a.png'')\<rparr>]\<rparr>"



definition no_link_entry :: entry where
  "no_link_entry =
     \<lparr>e_id = Some (ascii ''5''), e_link = None, e_title = Some (ascii ''T''),
      e_summary = None, e_media_content = None, e_links = None\<rparr>"

definition empty_id_entry :: entry where
  "empty_id_entry =
     \<lparr>e_id = Some [], e_link = Some (ascii ''http://f.example/9''),
      e_title = Some (ascii ''T''), e_summary = None, e_media_content = None,
      e_links = None\<rparr>"

section \<open>Descriptions used in the statements\<close>

text \<open>
  The image choice described as a search: the URLs of the media references, the typed
  links, the test a link passes to be taken as an image, and the first match.
\<close>

definition media_urls :: "entry \<Rightarrow> pystr list" where
  "media_urls e =
     (case e_media_content e of None \<Rightarrow> [] | Some ms \<Rightarrow> List.map_filter media_url ms)"

definition typed_links :: "entry \<Rightarrow> link_data list" where
  "typed_links e = (case e_links e of None \<Rightarrow> [] | Some ls \<Rightarrow> ls)"

definition image_link :: "env \<Rightarrow> link_data \<Rightarrow> bool" where
  "image_link env l =
     (case href l of
        None \<Rightarrow> False
      | Some h \<Rightarrow>
          is_valid_url env h \<and>
          (prefix (ascii ''image'') (case link_type l of None \<Rightarrow> [] | Some t \<Rightarrow> t) \<or>
           list_ex (\<lambda>keyword. sublist keyword (str_lower env h)) image_keywords))"

definition first_image :: "env \<Rightarrow> entry \<Rightarrow> pystr option" where
  "first_image env e =
     (case find (is_valid_url env) (media_urls e) of
        Some url \<Rightarrow> Some url
      | None \<Rightarrow>
          (case find (image_link env) (typed_links e) of
             None \<Rightarrow> None
           | Some l \<Rightarrow> href l))"


text \<open>
  The events of one failed attempt with its number (1, 2 or 3), the message logged
  after a successful send, and the message and the send call made for an entry.
\<close>

definition send_warning :: "failure \<Rightarrow> nat \<Rightarrow> log_msg" where
  "send_warning f n =
     (case f of TelegramError \<Rightarrow> TelegramSendError n | OtherException \<Rightarrow> GeneralSendError n)"

definition failed_attempt :: "request \<Rightarrow> failure \<Rightarrow> nat \<Rightarrow> event list" where
  "failed_attempt req f n =
     [Bot req, Logging WARNING (send_warning f n)]
       @ (if n = MAX_RETRIES then [Logging ERROR AllAttemptsFailed] else [])
       @ [Sleep 2]"

definition published :: "pystr option \<Rightarrow> pystr \<Rightarrow> log_msg" where
  "published image_url title =
     (if has_image image_url then PhotoPublished title else TextPublished title)"

definition entry_message :: "entry \<Rightarrow> pystr" where
  "entry_message e =
     format_message
       (html_escape (case e_title e of None \<Rightarrow> [] | Some t \<Rightarrow> t))
       (html_escape (case e_summary e of None \<Rightarrow> [] | Some x \<Rightarrow> x))
       (case e_link e of None \<Rightarrow> [] | Some l \<Rightarrow> l)"

definition entry_request :: "env \<Rightarrow> entry \<Rightarrow> request" where
  "entry_request env e = send_request (extract_image_url env e) (entry_message e)"

section \<open>Evaluating concrete runs\<close>

lemma upt_0_3: "[0..<3] = [0, 1, 2]"
  by (simp add: upt_rec)

lemma attempt_numbers: "[0..<MAX_RETRIES] = [0, 1, 2]"
  by (simp add: MAX_RETRIES_def upt_rec)

lemmas run_defs =
  Let_def upt_0_3 send_attempts.simps process_and_send_entries_def get_last_entry_id_def world0_def
  plain_entry_def get_entry_id_def already_processed_def html_escape_def replace_char_def
  ascii_def format_message_def truncate_text_def extract_image_url_def MAX_RETRIES_def
  send_request_def env0_def always_delivered_def emit_def has_image_def
  save_last_entry_id_def utf8_encodable_def read_more_def universal_newlines_def
  strip_def isspace_def

lemma first_cycle:
  "process_and_send_entries env0 feed321 world0 =
     (Inr 3,
      \<lparr>cursor_file = Some (ascii ''1''), calls = 3,
       trace =
         [Bot (SendMessage (format_message (ascii ''C'') [] (ascii ''http://f.example/3''))),
          Logging INFO (TextPublished (ascii ''C'')),
          Logging INFO (EntryProcessed (ascii ''C'') (ascii ''3'')), Sleep 60,
          Bot (SendMessage (format_message (ascii ''B'') [] (ascii ''http://f.example/2''))),
          Logging INFO (TextPublished (ascii ''B'')),
          Logging INFO (EntryProcessed (ascii ''B'') (ascii ''2'')), Sleep 60,
          Bot (SendMessage (format_message (ascii ''A'') [] (ascii ''http://f.example/1''))),
          Logging INFO (TextPublished (ascii ''A'')),
          Logging INFO (EntryProcessed (ascii ''A'') (ascii ''1'')), Sleep 60]\<rparr>)"
  by (simp add: run_defs feed321_def)

lemma first_iteration:
  "main_iteration env0 (Parsed \<lparr>bozo = False, entries = feed321\<rparr>) world0 =
     \<lparr>cursor_file = Some (ascii ''1''), calls = 3,
       trace =
         [Bot (SendMessage (format_message (ascii ''C'') [] (ascii ''http://f.example/3''))),
          Logging INFO (TextPublished (ascii ''C'')),
          Logging INFO (EntryProcessed (ascii ''C'') (ascii ''3'')), Sleep 60,
          Bot (SendMessage (format_message (ascii ''B'') [] (ascii ''http://f.example/2''))),
          Logging INFO (TextPublished (ascii ''B'')),
          Logging INFO (EntryProcessed (ascii ''B'') (ascii ''2'')), Sleep 60,
          Bot (SendMessage (format_message (ascii ''A'') [] (ascii ''http://f.example/1''))),
          Logging INFO (TextPublished (ascii ''A'')),
          Logging INFO (EntryProcessed (ascii ''A'') (ascii ''1'')), Sleep 60,
          Logging INFO (Published 3), Logging INFO (Waiting 300), Sleep 300]\<rparr>"
proof -
  have "CHECK_INTERVAL env0 = 300"
    by (simp add: env0_def)
  then show ?thesis
    by (simp add: main_iteration_def main_try_def first_cycle emit_def)
qed

section \<open>C1: the watermark after a cycle\<close>

text \<open>
  C1. The claim: with the feed of ids 3, 2, 1 (newest first) and no stored cursor, a cycle
  delivers C, B, A in this order and leaves the cursor at "3", the newest entry, so that
  a second cycle on the same feed delivers nothing.

  The code delivers C, B, A in this order and counts 3, but it rewrites the cursor
  after each delivery while walking from the newest entry to the oldest, so the file
  ends holding "1", the oldest entry. The second cycle on the same feed stops only at
  entry 1: it delivers C and B once more and counts 2. In the scheduler loop the second
  cycle accordingly logs two published entries, not "nothing new".
\<close>

theorem cursor_ends_at_oldest_delivered:
  "fst (process_and_send_entries env0 feed321 world0) = Inr 3 \<and>
   requests_of (trace (snd (process_and_send_entries env0 feed321 world0))) =
     [SendMessage (format_message (ascii ''C'') [] (ascii ''http://f.example/3'')),
      SendMessage (format_message (ascii ''B'') [] (ascii ''http://f.example/2'')),
      SendMessage (format_message (ascii ''A'') [] (ascii ''http://f.example/1''))] \<and>
   cursor_file (snd (process_and_send_entries env0 feed321 world0)) = Some (ascii ''1'') \<and>
   fst (process_and_send_entries env0 feed321
         (snd (process_and_send_entries env0 feed321 world0))) = Inr 2 \<and>
   requests_of (trace (snd (process_and_send_entries env0 feed321
         (snd (process_and_send_entries env0 feed321 world0))))) =
     [SendMessage (format_message (ascii ''C'') [] (ascii ''http://f.example/3'')),
      SendMessage (format_message (ascii ''B'') [] (ascii ''http://f.example/2'')),
      SendMessage (format_message (ascii ''A'') [] (ascii ''http://f.example/1'')),
      SendMessage (format_message (ascii ''C'') [] (ascii ''http://f.example/3'')),
      SendMessage (format_message (ascii ''B'') [] (ascii ''http://f.example/2''))] \<and>
   Logging INFO (Published 2) \<in> set (trace (main_loop env0
      [Parsed \<lparr>bozo = False, entries = feed321\<rparr>, Parsed \<lparr>bozo = False, entries = feed321\<rparr>]
      world0)) \<and>
   Logging INFO NothingNew \<notin> set (trace (main_loop env0
      [Parsed \<lparr>bozo = False, entries = feed321\<rparr>, Parsed \<lparr>bozo = False, entries = feed321\<rparr>]
      world0))"
  unfolding first_cycle main_loop.simps first_iteration
  by (simp add: main_iteration_def main_try_def run_defs feed321_def)

section \<open>C2: truncation\<close>

lemma dropWhile_until_space:
  "32 \<notin> set xs \<Longrightarrow> dropWhile (\<lambda>c. c \<noteq> 32) (xs @ 32 # ys) = 32 # ys"
  by (induction xs) auto

lemma rsplit_space_head_last:
  assumes "s = p @ 32 # r" and "32 \<notin> set r"
  shows "rsplit_space_head s = p"
proof -
  have "dropWhile (\<lambda>c. c \<noteq> 32) (rev r @ 32 # rev p) = 32 # rev p"
    using assms(2) by (simp add: dropWhile_until_space)
  then show ?thesis
    using assms(1) by (simp add: rsplit_space_head_def)
qed

lemma rsplit_space_head_none: "32 \<notin> set s \<Longrightarrow> rsplit_space_head s = s"
  by (simp add: rsplit_space_head_def)

lemma truncate_text_short: "length text \<le> max_len \<Longrightarrow> truncate_text text max_len = text"
  by (simp add: truncate_text_def)

lemma truncate_text_cut:
  assumes "max_len < length text" and "take max_len text = p @ 32 # r"
    and "32 \<notin> set r" and "p \<noteq> []"
  shows "truncate_text text max_len = p @ ascii ''...''"
  using assms by (simp add: truncate_text_def Let_def rsplit_space_head_last [OF refl assms(3)])

lemma truncate_text_hard:
  assumes "max_len < length text" and "32 \<notin> set (tl (take max_len text))"
  shows "truncate_text text max_len = take max_len text @ ascii ''...''"
proof (cases "32 \<in> set (take max_len text)")
  case False
  then show ?thesis
    using assms(1) by (simp add: truncate_text_def rsplit_space_head_none)
next
  case True
  then obtain w where w: "take max_len text = 32 # w"
    using assms(2) by (cases "take max_len text") auto
  then have "32 \<notin> set w" using assms(2) by simp
  with w have "rsplit_space_head (take max_len text) = []"
    using rsplit_space_head_last [of "take max_len text" "[]" w] by simp
  then show ?thesis
    using assms(1) by (simp add: truncate_text_def)
qed

lemma last_space_split:
  assumes "32 \<in> set (tl w)"
  shows "\<exists>p r. w = p @ 32 # r \<and> 32 \<notin> set r \<and> p \<noteq> []"
proof -
  from assms obtain x xs where w: "w = x # xs" and "32 \<in> set xs"
    by (cases w) auto
  then obtain ys zs where "xs = ys @ 32 # zs" and "32 \<notin> set zs"
    using split_list_last [of 32 xs] by blast
  with w have "w = (x # ys) @ 32 # zs \<and> 32 \<notin> set zs \<and> x # ys \<noteq> []" by simp
  then show ?thesis by blast
qed

lemma rsplit_space_head_length: "length (rsplit_space_head w) \<le> length w"
proof -
  have "length (dropWhile (\<lambda>c. c \<noteq> 32) (rev w)) \<le> length w"
    using length_dropWhile_le [of "\<lambda>c. c \<noteq> 32" "rev w"] by simp
  then show ?thesis
    by (auto simp: rsplit_space_head_def)
qed

lemma truncate_text_length: "length (truncate_text text max_len) \<le> max_len + 3"
proof (cases "length text \<le> max_len")
  case True
  then show ?thesis by (simp add: truncate_text_short)
next
  case False
  have "length (rsplit_space_head (take max_len text)) \<le> max_len"
    using rsplit_space_head_length [of "take max_len text"] by simp
  with False show ?thesis
    by (simp add: truncate_text_def Let_def ascii_def)
qed

text \<open>
  C2, as the code has it. \<open>truncate_text\<close> returns a text of at most \<open>max_len\<close>
  characters unchanged. A longer text is cut to its first \<open>max_len\<close> characters; when
  this window has a space character (U+0020) after its first character, the window is cut
  again right before its last space, and \<open>...\<close> is appended; otherwise (no space, or
  the only space in first position) the whole window is kept and \<open>...\<close> is appended.
  The result is thus at most \<open>max_len\<close> characters of the text and the marker. In the
  message only the summary goes through the truncation, with \<open>max_len = 3500\<close>; the
  caption of a photo is the message truncated with \<open>max_len = 1024\<close>.
\<close>

theorem truncate_text_law:
  "(length text \<le> max_len \<longrightarrow> truncate_text text max_len = text) \<and>
   (max_len < length text \<and> 32 \<in> set (tl (take max_len text)) \<longrightarrow>
      (\<exists>p r. take max_len text = p @ 32 # r \<and> 32 \<notin> set r \<and> p \<noteq> [] \<and>
             truncate_text text max_len = p @ ascii ''...'')) \<and>
   (max_len < length text \<and> 32 \<notin> set (tl (take max_len text)) \<longrightarrow>
      truncate_text text max_len = take max_len text @ ascii ''...'') \<and>
   length (truncate_text text max_len) \<le> max_len + 3 \<and>
   length (format_message title summary link) \<le> length title + length link + 3528 \<and>
   (u \<noteq> [] \<longrightarrow>
      send_request (Some u) text = SendPhoto u (truncate_text text 1024) \<and>
      length (truncate_text text 1024) \<le> 1027)"
proof (intro conjI impI)
  assume "max_len < length text \<and> 32 \<in> set (tl (take max_len text))"
  then have long: "max_len < length text" and sp: "32 \<in> set (tl (take max_len text))"
    by simp_all
  from last_space_split [OF sp] obtain p r
    where split: "take max_len text = p @ 32 # r" "32 \<notin> set r" "p \<noteq> []"
    by blast
  with long have "truncate_text text max_len = p @ ascii ''...''"
    by (simp add: truncate_text_cut)
  with split show "\<exists>p r. take max_len text = p @ 32 # r \<and> 32 \<notin> set r \<and> p \<noteq> [] \<and>
             truncate_text text max_len = p @ ascii ''...''"
    by blast
next
  show "length (format_message title summary link) \<le> length title + length link + 3528"
    using truncate_text_length [of summary 3500]
    by (simp add: format_message_def ascii_def read_more_def)
next
  show "length (truncate_text text 1024) \<le> 1027"
    using truncate_text_length [of "text" 1024] by simp
qed (simp_all add: truncate_text_short truncate_text_hard truncate_text_length send_request_def)

theorem truncate_text_law_witness:
  "length (ascii ''short'') \<le> 10 \<and> truncate_text (ascii ''short'') 10 = ascii ''short'' \<and>
   13 < length (ascii ''hello world foo'') \<and>
   32 \<in> set (tl (take 13 (ascii ''hello world foo''))) \<and>
   (\<exists>p r. take 13 (ascii ''hello world foo'') = p @ 32 # r \<and> 32 \<notin> set r \<and> p \<noteq> [] \<and>
          truncate_text (ascii ''hello world foo'') 13 = p @ ascii ''...'') \<and>
   4 < length (ascii ''abcdefgh'') \<and> 32 \<notin> set (tl (take 4 (ascii ''abcdefgh''))) \<and>
   truncate_text (ascii ''abcdefgh'') 4 = ascii ''abcd...'' \<and>
   ascii ''http://f.example/a.png'' \<noteq> [] \<and>
   send_request (Some (ascii ''http://f.example/a.png'')) (ascii ''abcdefgh'') =
     SendPhoto (ascii ''http://f.example/a.png'') (truncate_text (ascii ''abcdefgh'') 1024)"
  using truncate_text_law [of "ascii ''short''" 10 "[]" "[]" "[]" "ascii ''x''"]
    truncate_text_law [of "ascii ''hello world foo''" 13 "[]" "[]" "[]" "ascii ''x''"]
    truncate_text_law [of "ascii ''abcdefgh''" 4 "[]" "[]" "[]" "ascii ''http://f.example/a.png''"]
  by (simp add: ascii_def)

text \<open>
  Where the claim fails. A window whose only space is its first character is kept whole,
  so the output ends inside a word although the window has a space. A tab is not a
  boundary. A message whose title has 3500 characters has 3525 characters: only the
  summary is truncated. A caption cut without a space in its window has 1027
  characters.
\<close>

theorem truncation_claim_counterexample:
  "truncate_text (ascii '' abcdef'') 4 = ascii '' abc...'' \<and>
   truncate_text (ascii ''ab'' @ [9] @ ascii ''cdef'') 4 = ascii ''ab'' @ [9] @ ascii ''c...'' \<and>
   length (format_message (replicate 3500 97) [] []) = 3525 \<and>
   length (truncate_text (format_message (replicate 1100 97) [] []) 1024) = 1027"
proof (intro conjI)
  show "truncate_text (ascii '' abcdef'') 4 = ascii '' abc...''"
    by (simp add: truncate_text_hard ascii_def)
  show "truncate_text (ascii ''ab'' @ [9] @ ascii ''cdef'') 4 = ascii ''ab'' @ [9] @ ascii ''c...''"
    by (simp add: truncate_text_hard ascii_def)
  show "length (format_message (replicate 3500 97) [] []) = 3525"
    by (simp add: format_message_def ascii_def read_more_def truncate_text_short)
  have "truncate_text (format_message (replicate 1100 97) [] []) 1024 =
          take 1024 (format_message (replicate 1100 97) [] []) @ ascii ''...''"
    by (rule truncate_text_hard)
      (simp_all add: format_message_def ascii_def read_more_def truncate_text_short)
  then show "length (truncate_text (format_message (replicate 1100 97) [] []) 1024) = 1027"
    by (simp add: format_message_def ascii_def read_more_def truncate_text_short)
qed

section \<open>C3: image extraction\<close>

lemma is_valid_url_empty: "\<not> is_valid_url env []"
  by (simp add: is_valid_url_def)

lemma scan_media_find:
  "scan_media env ms = find (is_valid_url env) (List.map_filter media_url ms)"
  by (induction ms) (simp_all add: List.map_filter_simps split: option.splits)

lemma scan_links_find:
  "scan_links env ls = (case find (image_link env) ls of None \<Rightarrow> None | Some l \<Rightarrow> href l)"
  by (induction ls) (auto simp: image_link_def Let_def is_valid_url_empty split: option.splits)

lemma extract_image_url_first_image: "extract_image_url env e = first_image env e"
  by (auto simp: extract_image_url_def first_image_def media_urls_def typed_links_def
      scan_media_find scan_links_find List.map_filter_simps split: option.splits)

lemmas url_defs =
  is_valid_url_def env0_def urlparse_plain_def ascii_lower_def scheme_chars_def ascii_def
  Let_def image_keywords_def

text \<open>
  C3, as the code has it. \<open>extract_image_url\<close> returns the URL of the first media
  reference whose URL is valid, if there is one. Otherwise it goes through the typed
  links once and returns the first link with a valid URL that has a declared type
  beginning with \<open>image\<close> or a URL whose lower-case form contains one of the keywords
  \<open>image\<close>, \<open>img\<close>, \<open>photo\<close>, \<open>picture\<close>; otherwise there is no image. So a valid media
  URL wins over every typed link, and among the typed links the position decides.
\<close>

theorem extract_image_url_single_scan:
  "extract_image_url env e = first_image env e \<and>
   (find (is_valid_url env) (media_urls e) = Some url \<longrightarrow> extract_image_url env e = Some url)"
  by (simp add: extract_image_url_first_image first_image_def)

theorem extract_image_url_single_scan_witness:
  "find (is_valid_url env0) (media_urls media_and_link_entry) =
     Some (ascii ''http://f.example/m.jpg'') \<and>
   image_link env0 (hd (typed_links media_and_link_entry)) \<and>
   extract_image_url env0 media_and_link_entry = Some (ascii ''http://f.example/m.jpg'')"
proof -
  have media: "find (is_valid_url env0) (media_urls media_and_link_entry) =
      Some (ascii ''http://f.example/m.jpg'')"
    by (simp add: media_urls_def media_and_link_entry_def List.map_filter_simps url_defs)
  have link: "image_link env0 (hd (typed_links media_and_link_entry))"
    by (simp add: typed_links_def image_link_def media_and_link_entry_def url_defs)
  from media extract_image_url_single_scan
    [of env0 media_and_link_entry "ascii ''http://f.example/m.jpg''"]
  have "extract_image_url env0 media_and_link_entry = Some (ascii ''http://f.example/m.jpg'')"
    by blast
  with media link show ?thesis by blast
qed

text \<open>
  Where the claim fails: the first link has the type \<open>text/html\<close> and a URL with the
  keyword \<open>img\<close>, the second link has the type \<open>image/png\<close>. The first one is returned.
\<close>

theorem image_type_scan_counterexample:
  "extract_image_url env0 two_links_entry = Some (ascii ''http://f.example/img/page.html'') \<and>
   extract_image_url env0 two_links_entry \<noteq> Some (ascii ''http://f.example/a.png'')"
  by (simp add: extract_image_url_def two_links_entry_def url_defs sublist_code)

section \<open>The retry loop and the walk, step by step\<close>

lemma requests_of_append: "requests_of (xs @ ys) = requests_of xs @ requests_of ys"
  by (induction xs rule: requests_of.induct) simp_all



lemma send_attempts_delivered:
  assumes "bot_send env (calls s) (send_request img msg) = Delivered"
  shows "send_attempts env img msg t i (a # rest) s =
     (True,
      emit (Logging INFO (EntryProcessed t i))
        (save_last_entry_id env i
          (emit (Logging INFO (published img t))
            (s\<lparr>calls := Suc (calls s), trace := trace s @ [Bot (send_request img msg)]\<rparr>))))"
  using assms by (simp add: Let_def emit_def published_def)

lemma send_attempts_failed:
  assumes "bot_send env (calls s) (send_request img msg) = Failed f"
  shows "send_attempts env img msg t i (a # rest) s =
     send_attempts env img msg t i rest
       (s\<lparr>calls := Suc (calls s),
          trace := trace s @ failed_attempt (send_request img msg) f (a + 1)\<rparr>)"
  using assms
  by (cases f) (auto simp: Let_def emit_def failed_attempt_def send_warning_def MAX_RETRIES_def)

declare send_attempts.simps(2) [simp del]



lemma send_attempts_all_failed:
  assumes "bot_send env (calls s) (send_request img msg) = Failed f1"
    and "bot_send env (calls s + 1) (send_request img msg) = Failed f2"
    and "bot_send env (calls s + 2) (send_request img msg) = Failed f3"
  shows "send_attempts env img msg t i [0..<MAX_RETRIES] s =
     (False,
      s\<lparr>calls := calls s + 3,
        trace := trace s @ failed_attempt (send_request img msg) f1 1
                   @ failed_attempt (send_request img msg) f2 2
                   @ failed_attempt (send_request img msg) f3 3\<rparr>)"
  using assms
  by (simp add: attempt_numbers send_attempts_failed numeral_2_eq_2 numeral_3_eq_3)

lemma failed_attempt_simps:
  "failed_attempt req f (Suc 0) = [Bot req, Logging WARNING (send_warning f 1), Sleep 2]"
  "failed_attempt req f 2 = [Bot req, Logging WARNING (send_warning f 2), Sleep 2]"
  "failed_attempt req f 3 =
     [Bot req, Logging WARNING (send_warning f 3), Logging ERROR AllAttemptsFailed, Sleep 2]"
  by (simp_all add: failed_attempt_def MAX_RETRIES_def)


lemma walk_failed:
  assumes "get_entry_id e = Inr i" and "\<not> already_processed last_id i"
    and "e_title e = Some t" and "e_link e = Some l"
    and "bot_send env (calls s) (entry_request env e) = Failed f1"
    and "bot_send env (calls s + 1) (entry_request env e) = Failed f2"
    and "bot_send env (calls s + 2) (entry_request env e) = Failed f3"
  shows "walk env last_id (e # es) n s =
     walk env last_id es n
       (s\<lparr>calls := calls s + 3,
          trace := trace s @ failed_attempt (entry_request env e) f1 1
                     @ failed_attempt (entry_request env e) f2 2
                     @ failed_attempt (entry_request env e) f3 3\<rparr>)"
proof -
  have "send_attempts env (extract_image_url env e) (entry_message e) (html_escape t) i
          [0..<MAX_RETRIES] s =
     (False,
      s\<lparr>calls := calls s + 3,
        trace := trace s @ failed_attempt (entry_request env e) f1 1
                   @ failed_attempt (entry_request env e) f2 2
                   @ failed_attempt (entry_request env e) f3 3\<rparr>)"
    using assms(5-7) unfolding entry_request_def by (rule send_attempts_all_failed)
  then show ?thesis
    using assms(1-4) by (simp add: entry_message_def Let_def)
qed

lemma walk_delivered:
  assumes "get_entry_id e = Inr i" and "\<not> already_processed last_id i"
    and "e_title e = Some t" and "e_link e = Some l"
    and "bot_send env (calls s) (entry_request env e) = Delivered"
  shows "walk env last_id (e # es) n s =
     walk env last_id es (n + 1)
       (emit (Sleep (POST_COOLDOWN env))
         (emit (Logging INFO (EntryProcessed (html_escape t) i))
           (save_last_entry_id env i
             (emit (Logging INFO (published (extract_image_url env e) (html_escape t)))
               (s\<lparr>calls := Suc (calls s),
                  trace := trace s @ [Bot (entry_request env e)]\<rparr>)))))"
proof -
  have "send_attempts env (extract_image_url env e) (entry_message e) (html_escape t) i
          [0..<MAX_RETRIES] s =
     (True,
      emit (Logging INFO (EntryProcessed (html_escape t) i))
        (save_last_entry_id env i
          (emit (Logging INFO (published (extract_image_url env e) (html_escape t)))
            (s\<lparr>calls := Suc (calls s),
               trace := trace s @ [Bot (entry_request env e)]\<rparr>))))"
    using assms(5) unfolding entry_request_def attempt_numbers
    by (rule send_attempts_delivered)
  then show ?thesis
    using assms(1-4) by (simp add: entry_message_def Let_def)
qed


section \<open>C4: retry policy\<close>




section \<open>C5: the identifier of an entry\<close>

lemma save_last_entry_id_file:
  "cursor_file (save_last_entry_id env i s) =
     (if write_fails env then cursor_file s
      else if utf8_encodable i then Some i else Some [])"
  by (simp add: save_last_entry_id_def emit_def)

text \<open>
  C5, as the code has it. The identifier of an entry is \<open>entry.get('id', entry.link)\<close>:
  the \<open>id\<close> field whenever the entry has one, the empty string included, and the link
  only when the entry has no \<open>id\<close> field; an entry without a link has no identifier,
  the lookup raises. This identifier is the one compared with the stored cursor (the
  walk stops there) and the one written to the cursor file after a successful send. It
  is a function of the entry alone, so the same entry always gives the same identifier.
\<close>

theorem entry_id_derivation:
  "(e_link e = Some l \<and> e_id e = Some i \<longrightarrow> get_entry_id e = Inr i) \<and>
   (e_link e = Some l \<and> e_id e = None \<longrightarrow> get_entry_id e = Inr l) \<and>
   (e_link e = None \<longrightarrow> get_entry_id e = Inl (AttributeError ''link'')) \<and>
   (get_entry_id e = Inr i \<and> already_processed last_id i \<longrightarrow>
      walk env last_id (e # es) n s = (Inr n, s)) \<and>
   (get_entry_id e = Inr i \<and> \<not> already_processed last_id i \<and> e_title e = Some t \<and>
    bot_send env (calls s) (entry_request env e) = Delivered \<longrightarrow>
      cursor_file (snd (walk env last_id [e] n s)) = cursor_file (save_last_entry_id env i s))"
proof (intro conjI impI)
  assume a: "get_entry_id e = Inr i \<and> \<not> already_processed last_id i \<and> e_title e = Some t \<and>
    bot_send env (calls s) (entry_request env e) = Delivered"
  then obtain l where l: "e_link e = Some l"
    by (auto simp: get_entry_id_def split: option.splits)
  from a l have "walk env last_id [e] n s =
     walk env last_id [] (n + 1)
       (emit (Sleep (POST_COOLDOWN env))
         (emit (Logging INFO (EntryProcessed (html_escape t) i))
           (save_last_entry_id env i
             (emit (Logging INFO (published (extract_image_url env e) (html_escape t)))
               (s\<lparr>calls := Suc (calls s),
                  trace := trace s @ [Bot (entry_request env e)]\<rparr>)))))"
    by (intro walk_delivered) simp_all
  then show "cursor_file (snd (walk env last_id [e] n s)) =
      cursor_file (save_last_entry_id env i s)"
    by (simp add: emit_def save_last_entry_id_file)
qed (simp_all add: get_entry_id_def)

theorem entry_id_derivation_witness:
  "get_entry_id (plain_entry ''3'' ''C'' ''http://f.example/3'') = Inr (ascii ''3'') \<and>
   get_entry_id ((plain_entry ''3'' ''C'' ''http://f.example/3'')\<lparr>e_id := None\<rparr>) =
     Inr (ascii ''http://f.example/3'') \<and>
   get_entry_id no_link_entry = Inl (AttributeError ''link'') \<and>
   walk env0 (Some (ascii ''3'')) (plain_entry ''3'' ''C'' ''http://f.example/3'' # feed321) 0 world0 =
     (Inr 0, world0) \<and>
   cursor_file (snd (walk env0 (Some (ascii ''1''))
       [plain_entry ''3'' ''C'' ''http://f.example/3''] 0 world0)) = Some (ascii ''3'')"
proof -
  let ?e = "plain_entry ''3'' ''C'' ''http://f.example/3''"
  note rule = entry_id_derivation [where e = "?e" and i = "ascii ''3''"
      and l = "ascii ''http://f.example/3''" and t = "ascii ''C''" and env = env0 and s = world0
      and n = 0]
  have link: "e_link ?e = Some (ascii ''http://f.example/3'')"
    and ident: "e_id ?e = Some (ascii ''3'')" and title: "e_title ?e = Some (ascii ''C'')"
    by (simp_all add: plain_entry_def)
  have sent: "bot_send env0 (calls world0) (entry_request env0 ?e) = Delivered"
    by (simp add: env0_def always_delivered_def)
  have a: "get_entry_id ?e = Inr (ascii ''3'')"
    using rule [where last_id = None and es = "[]"] link ident by blast
  have b: "get_entry_id (?e\<lparr>e_id := None\<rparr>) = Inr (ascii ''http://f.example/3'')"
    using entry_id_derivation [of "?e\<lparr>e_id := None\<rparr>" "ascii ''http://f.example/3''"]
    by (simp add: plain_entry_def)
  have c: "get_entry_id no_link_entry = Inl (AttributeError ''link'')"
    using entry_id_derivation [of no_link_entry] by (simp add: no_link_entry_def)
  have d: "walk env0 (Some (ascii ''3'')) (?e # feed321) 0 world0 = (Inr 0, world0)"
    using rule [where last_id = "Some (ascii ''3'')" and es = feed321] a
    by (simp add: already_processed_def ascii_def)
  have "cursor_file (snd (walk env0 (Some (ascii ''1'')) [?e] 0 world0)) =
      cursor_file (save_last_entry_id env0 (ascii ''3'') world0)"
    using rule [where last_id = "Some (ascii ''1'')" and es = "[]"] a title sent
    by (simp add: already_processed_def ascii_def)
  then have e: "cursor_file (snd (walk env0 (Some (ascii ''1'')) [?e] 0 world0)) = Some (ascii ''3'')"
    by (simp add: save_last_entry_id_file env0_def utf8_encodable_def ascii_def)
  from a b c d e show ?thesis by simp
qed

text \<open>
  Where the claim fails: an entry whose \<open>id\<close> field is present and empty. Its
  identifier is the empty string, not its link, and a successful delivery writes the
  empty string over the stored cursor.
\<close>

theorem empty_id_counterexample:
  "e_id empty_id_entry = Some [] \<and>
   e_link empty_id_entry = Some (ascii ''http://f.example/9'') \<and>
   get_entry_id empty_id_entry = Inr [] \<and>
   cursor_file (snd (process_and_send_entries env0 [empty_id_entry]
      (world0\<lparr>cursor_file := Some (ascii ''8'')\<rparr>))) = Some []"
  by (simp add: empty_id_entry_def run_defs)

section \<open>C6: an entry whose three attempts fail\<close>

text \<open>
  C6. When all three attempts for an entry fail, the walk goes on with the next entry
  from a state in which the cursor file is as it was, the counter of sent entries is
  unchanged, and the trace has grown by the three attempts only: each with its warning
  and its 2-second pause, and no pause of \<open>POST_COOLDOWN\<close> seconds. Whatever the later
  entries do is then added to this state.
\<close>

theorem retry_exhaustion:
  assumes "get_entry_id e = Inr i" and "\<not> already_processed last_id i"
    and "e_title e = Some t" and "e_link e = Some l"
    and "bot_send env (calls s) (entry_request env e) = Failed f1"
    and "bot_send env (calls s + 1) (entry_request env e) = Failed f2"
    and "bot_send env (calls s + 2) (entry_request env e) = Failed f3"
  shows "walk env last_id (e # es) n s =
     walk env last_id es n
       (s\<lparr>calls := calls s + 3,
          trace := trace s
            @ [Bot (entry_request env e), Logging WARNING (send_warning f1 1), Sleep 2,
               Bot (entry_request env e), Logging WARNING (send_warning f2 2), Sleep 2,
               Bot (entry_request env e), Logging WARNING (send_warning f3 3),
               Logging ERROR AllAttemptsFailed, Sleep 2]\<rparr>)"
  using walk_failed [OF assms] by (simp add: failed_attempt_simps)

theorem retry_exhaustion_witness:
  "walk (env_failing 3) None
     [plain_entry ''3'' ''C'' ''http://f.example/3'', plain_entry ''2'' ''B'' ''http://f.example/2'']
     0 world0 =
   (Inr 1,
    \<lparr>cursor_file = Some (ascii ''2''), calls = 4,
     trace =
       [Bot (SendMessage (format_message (ascii ''C'') [] (ascii ''http://f.example/3''))),
        Logging WARNING (GeneralSendError 1), Sleep 2,
        Bot (SendMessage (format_message (ascii ''C'') [] (ascii ''http://f.example/3''))),
        Logging WARNING (GeneralSendError 2), Sleep 2,
        Bot (SendMessage (format_message (ascii ''C'') [] (ascii ''http://f.example/3''))),
        Logging WARNING (GeneralSendError 3), Logging ERROR AllAttemptsFailed, Sleep 2,
        Bot (SendMessage (format_message (ascii ''B'') [] (ascii ''http://f.example/2''))),
        Logging INFO (TextPublished (ascii ''B'')),
        Logging INFO (EntryProcessed (ascii ''B'') (ascii ''2'')), Sleep 60]\<rparr>)"
proof -
  let ?e = "plain_entry ''3'' ''C'' ''http://f.example/3''"
  have bot: "bot_send (env_failing 3) k req = (if k < 3 then Failed OtherException else Delivered)"
    for k req
    by (simp add: env_failing_def env0_def fails_first_def)
  have req: "entry_request (env_failing 3) ?e =
      SendMessage (format_message (ascii ''C'') [] (ascii ''http://f.example/3''))"
    by (simp add: entry_request_def entry_message_def plain_entry_def extract_image_url_def
        send_request_def html_escape_def replace_char_def ascii_def)
  have step: "walk (env_failing 3) None [?e, plain_entry ''2'' ''B'' ''http://f.example/2''] 0 world0 =
      walk (env_failing 3) None [plain_entry ''2'' ''B'' ''http://f.example/2''] 0
       (world0\<lparr>calls := calls world0 + 3,
          trace := trace world0
            @ [Bot (entry_request (env_failing 3) ?e),
               Logging WARNING (send_warning OtherException 1), Sleep 2,
               Bot (entry_request (env_failing 3) ?e),
               Logging WARNING (send_warning OtherException 2), Sleep 2,
               Bot (entry_request (env_failing 3) ?e),
               Logging WARNING (send_warning OtherException 3),
               Logging ERROR AllAttemptsFailed, Sleep 2]\<rparr>)"
    by (rule retry_exhaustion [where i = "ascii ''3''" and t = "ascii ''C''"
          and l = "ascii ''http://f.example/3''"])
      (simp_all add: bot world0_def get_entry_id_def plain_entry_def already_processed_def)
  show ?thesis
    unfolding step req
    by (simp add: send_warning_def run_defs env_failing_def fails_first_def)
qed
section \<open>C7: invalid URLs\<close>










section \<open>C8: a feed that fails to parse\<close>

text \<open>
  C8. When the fetched feed has its \<open>bozo\<close> flag set, the cycle takes the normal exit
  of the \<open>try\<close> block: it logs the parse error, logs the wait and sleeps
  \<open>CHECK_INTERVAL\<close> seconds. It makes no send call and leaves the cursor file as it
  was, whatever entries the feed holds.
\<close>

theorem parse_failure_cycle:
  assumes "bozo f"
  shows "main_try env (Parsed f) s = (Inr (), s\<lparr>trace := trace s @ [Logging ERROR ParseError]\<rparr>) \<and>
    main_iteration env (Parsed f) s =
      s\<lparr>trace := trace s @ [Logging ERROR ParseError,
                             Logging INFO (Waiting (CHECK_INTERVAL env)),
                             Sleep (CHECK_INTERVAL env)]\<rparr> \<and>
    cursor_file (main_iteration env (Parsed f) s) = cursor_file s \<and>
    requests_of (trace (main_iteration env (Parsed f) s)) = requests_of (trace s)"
  using assms by (simp add: main_try_def main_iteration_def emit_def requests_of_append)

theorem parse_failure_cycle_witness:
  "main_iteration env0 (Parsed \<lparr>bozo = True, entries = feed321\<rparr>)
       (world0\<lparr>cursor_file := Some (ascii ''2'')\<rparr>) =
     \<lparr>cursor_file = Some (ascii ''2''), calls = 0,
      trace = [Logging ERROR ParseError, Logging INFO (Waiting 300), Sleep 300]\<rparr>"
  using parse_failure_cycle [of "\<lparr>bozo = True, entries = feed321\<rparr>" env0
      "world0\<lparr>cursor_file := Some (ascii ''2'')\<rparr>"]
  by (simp add: world0_def env0_def)

section \<open>C9: an entry without a link\<close>

lemma walk_stops_without_link:
  assumes "e_link e = None"
  shows "walk env last_id (pre @ e # es) n s = walk env last_id (pre @ [e]) n s"
proof (induction pre arbitrary: n s)
  case Nil
  show ?case using assms by (simp add: get_entry_id_def)
next
  case (Cons p pre)
  show ?case
    by (simp add: Cons.IH Let_def split: sum.splits option.splits)
qed

text \<open>
  C9. When the walk reaches an entry that has no \<open>link\<close>, it raises
  \<open>AttributeError\<close> at once, whatever the \<open>id\<close> of the entry and the stored cursor,
  and changes nothing; the entries after it play no part in the result. In the
  scheduler loop the exception is caught by the catch-all: it is logged, and the loop
  sleeps 60 seconds.
\<close>

theorem missing_link_raises:
  assumes "e_link e = None"
  shows "walk env last_id (e # es) n s = (Inl (AttributeError ''link''), s) \<and>
    walk env last_id (pre @ e # es) n s = walk env last_id (pre @ [e]) n s \<and>
    main_iteration env (Parsed \<lparr>bozo = False, entries = e # es\<rparr>) s =
      (snd (get_last_entry_id env s))
        \<lparr>trace := trace (snd (get_last_entry_id env s))
           @ [Logging ERROR (CriticalError (AttributeError ''link'')),
              Logging INFO Restarting, Sleep 60]\<rparr>"
  using assms walk_stops_without_link [OF assms]
  by (simp add: get_entry_id_def main_iteration_def main_try_def process_and_send_entries_def
      Let_def emit_def)

theorem missing_link_raises_witness:
  "e_id no_link_entry = Some (ascii ''5'') \<and>
   walk env0 (Some (ascii ''5'')) (no_link_entry # feed321) 0 world0 =
     (Inl (AttributeError ''link''), world0) \<and>
   main_iteration env0 (Parsed \<lparr>bozo = False, entries = no_link_entry # feed321\<rparr>) world0 =
     \<lparr>cursor_file = None, calls = 0,
      trace = [Logging ERROR (CriticalError (AttributeError ''link'')),
               Logging INFO Restarting, Sleep 60]\<rparr>"
proof -
  have "e_link no_link_entry = None"
    by (simp add: no_link_entry_def)
  from missing_link_raises [OF this, of env0 _ feed321 0 world0 "[]"]
  show ?thesis
    by (simp add: no_link_entry_def get_last_entry_id_def world0_def)
qed

section \<open>C10: the cursor file\<close>

lemma newlines_no_cr: "13 \<notin> set s \<Longrightarrow> newlines False s = s"
  by (induction s) auto

lemma strip_no_outer_space:
  assumes "s \<noteq> []" and "\<not> isspace (hd s)" and "\<not> isspace (last s)"
  shows "strip s = s"
proof -
  have "dropWhile isspace s = s"
    using assms(1,2) by (cases s) auto
  moreover have "dropWhile isspace (rev s) = rev s"
    using assms(1,3) by (cases "rev s") (auto simp: hd_rev [symmetric] simp del: rev_is_Nil_conv)
  ultimately show ?thesis
    by (simp add: strip_def)
qed

lemma newlines_all_space: "list_all isspace s \<Longrightarrow> list_all isspace (newlines b s)"
  by (induction s arbitrary: b) (auto simp: isspace_def)

lemma strip_all_space:
  assumes "list_all isspace s"
  shows "strip s = []"
proof -
  have none_left: "dropWhile isspace s = []"
    using assms by (simp add: dropWhile_eq_Nil_conv list_all_iff)
  show ?thesis
    unfolding strip_def none_left by simp
qed

lemma space_encodable: "list_all isspace s \<Longrightarrow> utf8_encodable s"
  by (induction s) (auto simp: utf8_encodable_def isspace_def)

text \<open>
  C10, as the code has it. When the file can be written and read, an identifier that
  is not empty, has no whitespace at either end, has no carriage return and no
  surrogate code point is read back as it was saved. An identifier that is empty or
  made of whitespace only is written as it is, and the next read gives no cursor: a
  successful delivery of an entry with such an identifier erases the watermark.
\<close>

theorem cursor_round_trip:
  "(\<not> write_fails env \<and> \<not> read_fails env \<and> entry_id \<noteq> [] \<and> \<not> isspace (hd entry_id) \<and>
    \<not> isspace (last entry_id) \<and> 13 \<notin> set entry_id \<and> utf8_encodable entry_id \<longrightarrow>
      fst (get_last_entry_id env (save_last_entry_id env entry_id s)) = Some entry_id) \<and>
   (\<not> write_fails env \<and> list_all isspace entry_id \<longrightarrow>
      cursor_file (save_last_entry_id env entry_id s) = Some entry_id \<and>
      fst (get_last_entry_id env (save_last_entry_id env entry_id s)) = None)"
proof (intro conjI impI)
  assume "\<not> write_fails env \<and> \<not> read_fails env \<and> entry_id \<noteq> [] \<and> \<not> isspace (hd entry_id) \<and>
    \<not> isspace (last entry_id) \<and> 13 \<notin> set entry_id \<and> utf8_encodable entry_id"
  then show "fst (get_last_entry_id env (save_last_entry_id env entry_id s)) = Some entry_id"
    by (simp add: get_last_entry_id_def save_last_entry_id_def universal_newlines_def
        newlines_no_cr strip_no_outer_space)
next
  assume a: "\<not> write_fails env \<and> list_all isspace entry_id"
  then show "cursor_file (save_last_entry_id env entry_id s) = Some entry_id"
    by (simp add: save_last_entry_id_def space_encodable)
  from a have "strip (universal_newlines entry_id) = []"
    by (simp add: universal_newlines_def newlines_all_space strip_all_space)
  with a show "fst (get_last_entry_id env (save_last_entry_id env entry_id s)) = None"
    by (simp add: get_last_entry_id_def save_last_entry_id_def space_encodable emit_def)
qed

theorem cursor_round_trip_witness:
  "fst (get_last_entry_id env0 (save_last_entry_id env0 (ascii ''tag:f.example,2024:3'') world0)) =
     Some (ascii ''tag:f.example,2024:3'') \<and>
   fst (get_last_entry_id env0 (save_last_entry_id env0 [] world0)) = None \<and>
   fst (get_last_entry_id env0 (save_last_entry_id env0 (ascii ''  '') world0)) = None \<and>
   fst (get_last_entry_id env0
         (snd (process_and_send_entries env0 [empty_id_entry]
                (world0\<lparr>cursor_file := Some (ascii ''8'')\<rparr>)))) = None"
proof -
  have env: "\<not> write_fails env0" "\<not> read_fails env0"
    by (simp_all add: env0_def)
  have a: "fst (get_last_entry_id env0
      (save_last_entry_id env0 (ascii ''tag:f.example,2024:3'') world0)) =
     Some (ascii ''tag:f.example,2024:3'')"
    using cursor_round_trip [of env0 "ascii ''tag:f.example,2024:3''" world0] env
    by (simp add: ascii_def isspace_def utf8_encodable_def)
  have b: "fst (get_last_entry_id env0 (save_last_entry_id env0 [] world0)) = None"
    using cursor_round_trip [of env0 "[]" world0] env by simp
  have c: "fst (get_last_entry_id env0 (save_last_entry_id env0 (ascii ''  '') world0)) = None"
    using cursor_round_trip [of env0 "ascii ''  ''" world0] env
    by (simp add: ascii_def isspace_def)
  have d: "fst (get_last_entry_id env0
         (snd (process_and_send_entries env0 [empty_id_entry]
                (world0\<lparr>cursor_file := Some (ascii ''8'')\<rparr>)))) = None"
    by (simp add: empty_id_entry_def run_defs)
  from a b c d show ?thesis by simp
qed

text \<open>
  Where the claim fails, for identifiers that are not empty and have no whitespace at
  either end: a carriage return inside the identifier is read back as a newline; a
  surrogate code point makes the encoding fail after the file was emptied, so that no
  cursor is read back; and when the file cannot be written, nothing is stored.
\<close>

theorem round_trip_counterexample:
  "[97, 13, 98] \<noteq> [] \<and> \<not> isspace (hd [97, 13, 98]) \<and> \<not> isspace (last [97, 13, 98]) \<and>
   fst (get_last_entry_id env0 (save_last_entry_id env0 [97, 13, 98] world0)) =
     Some [97, 10, 98] \<and>
   [97, 55296] \<noteq> [] \<and> \<not> isspace (hd [97, 55296]) \<and> \<not> isspace (last [97, 55296]) \<and>
   fst (get_last_entry_id env0 (save_last_entry_id env0 [97, 55296] world0)) = None \<and>
   fst (get_last_entry_id (env0\<lparr>write_fails := True\<rparr>)
         (save_last_entry_id (env0\<lparr>write_fails := True\<rparr>) (ascii ''3'') world0)) = None"
  by (simp add: get_last_entry_id_def save_last_entry_id_def env0_def world0_def emit_def
      utf8_encodable_def universal_newlines_def strip_def isspace_def ascii_def)

end
